theory Spec2Isabelle
  imports Complex_Main
begin

section \<open>Titan Cargo backend: authentication gate and booking handlers\<close>

text \<open>
  The development embeds the Express handlers of the backend (configuration, the
  \<open>authenticateToken\<close> and \<open>errorHandler\<close> middleware, the user, booking and dashboard
  controllers) as functions over an explicit store. The handlers call three libraries that
  are not part of the repository: \<open>jsonwebtoken\<close>, \<open>bcryptjs\<close> and \<open>mongoose\<close>. Their
  calls are modelled by their documented behaviour, each model marked as such; the
  cryptographic primitives themselves (signature, password hash) are parameters.

  Conventions: a JavaScript value that may be \<open>undefined\<close> is an \<open>option\<close>; a request
  field is taken to have the type the schema casts it to (JSON \<open>null\<close> and values of
  another type are outside the model); an \<open>ObjectId\<close> is its 24-digit hexadecimal string
  and route parameters are well-formed ids; a stored \<open>Number\<close> is a finite double, held as
  the rational it denotes, while the result of arithmetic on doubles is a \<open>js_number\<close>
  (finite, infinite or \<open>NaN\<close>); times are milliseconds since the epoch, as \<open>Date.now()\<close>.
\<close>

subsection \<open>Configuration\<close>

record config =
  jwtSecret :: string
  environment :: string

subsection \<open>Library model: jsonwebtoken\<close>

type_synonym oid = string

text \<open>The payload the controllers sign, with the two registered claims the library adds.\<close>

record payload =
  userId :: oid
  p_email :: string
  p_role :: string
  iat :: nat
  exp :: nat

text \<open>
  A signed token, abstractly: the key its signature was made with and the payload it
  carries. The compact serialisation and its inverse (parse and recompute the signature)
  are the parameters \<open>jws_encode\<close> and \<open>jws_decode\<close>; \<open>bcrypt_hash\<close> and
  \<open>bcrypt_compare\<close> stand for \<open>bcrypt.hash(s, 10)\<close> and \<open>bcrypt.compare\<close> on strings.
\<close>

record jws =
  signing_key :: string
  claims :: payload

text \<open>
  A JavaScript number as a computation yields it: a finite double (the rational it
  denotes; the two zeros are not told apart), an infinity or \<open>NaN\<close>.
\<close>

datatype js_number = Finite rat | PlusInfinity | MinusInfinity | NaN

text \<open>
  The last parameter is the accumulator \<open>$sum\<close> of the database on a list of doubles: a
  floating-point summation whose rounding is the database's own.
\<close>

record libs =
  jws_encode :: "jws \<Rightarrow> string"
  jws_decode :: "string \<Rightarrow> jws option"
  bcrypt_hash :: "string \<Rightarrow> string"
  bcrypt_compare :: "string \<Rightarrow> string \<Rightarrow> bool"
  mongo_sum :: "rat list \<Rightarrow> js_number"

datatype jwt_error = JsonWebTokenError | TokenExpiredError

text \<open>\<open>expiresIn: '24h'\<close>: the library converts the span to seconds.\<close>

definition expiresIn_24h :: nat where
  "expiresIn_24h = 24 * 60 * 60"

text \<open>
  \<open>jwt.sign(payload, secret, {expiresIn: '24h'})\<close> at clock reading \<open>now\<close> (milliseconds):
  \<open>iat = Math.floor(Date.now() / 1000)\<close> and \<open>exp = iat + 86400\<close>.
\<close>

definition signed_claims :: "nat \<Rightarrow> oid \<Rightarrow> string \<Rightarrow> string \<Rightarrow> payload" where
  "signed_claims now uid em r =
     \<lparr>userId = uid, p_email = em, p_role = r,
      iat = now div 1000, exp = now div 1000 + expiresIn_24h\<rparr>"

definition jwt_sign :: "libs \<Rightarrow> nat \<Rightarrow> oid \<Rightarrow> string \<Rightarrow> string \<Rightarrow> string \<Rightarrow> string" where
  "jwt_sign L now uid em r secret =
     jws_encode L \<lparr>signing_key = secret, claims = signed_claims now uid em r\<rparr>"

text \<open>
  \<open>jwt.verify(token, secret, callback)\<close> at clock reading \<open>now\<close>: a malformed token or a
  signature made with another key is a \<open>JsonWebTokenError\<close>; then the token is expired when
  \<open>Math.floor(Date.now() / 1000) >= exp\<close>; otherwise the callback gets the payload.
\<close>

definition jwt_verify :: "libs \<Rightarrow> nat \<Rightarrow> string \<Rightarrow> string \<Rightarrow> jwt_error + payload" where
  "jwt_verify L now token secret =
     (case jws_decode L token of
        None \<Rightarrow> Inl JsonWebTokenError
      | Some t \<Rightarrow>
          if signing_key t = secret
          then (if exp (claims t) \<le> now div 1000 then Inl TokenExpiredError
                else Inr (claims t))
          else Inl JsonWebTokenError)"

subsection \<open>Requests, responses and the store\<close>

record user =
  u_id :: oid
  u_name :: string
  u_email :: string
  u_password :: string
  u_role :: string
  u_phone :: "string option"
  u_address :: "string option"
  u_createdAt :: nat
  u_lastLogin :: "nat option"

record dimensions =
  dim_length :: "rat option"
  dim_width :: "rat option"
  dim_height :: "rat option"

record cargoDetails =
  description :: string
  weight :: rat
  dims :: "dimensions option"
  cargo_type :: string

record route =
  route_from :: string
  route_to :: string
  departureDate :: nat
  arrivalDate :: nat

record booking =
  b_id :: oid
  airwayBill :: string
  clientId :: oid
  cargo :: cargoDetails
  b_route :: route
  status :: string
  price :: rat
  paymentStatus :: string
  createdAt :: nat
  updatedAt :: nat

record trip =
  t_id :: oid
  t_status :: string

record vehicle =
  v_id :: oid
  v_status :: string

text \<open>
  Every call of a model method is recorded in \<open>db_log\<close>, so that "this code path does not
  touch the store" is a statement about the state.
\<close>

datatype db_op =
  User_findOne | User_save | Booking_save | Booking_findById | Booking_populate
  | Booking_findByIdAndUpdate | Booking_countDocuments | Booking_aggregate
  | Trip_countDocuments | Vehicle_countDocuments

record world =
  users :: "user list"
  bookings :: "booking list"
  trips :: "trip list"
  vehicles :: "vehicle list"
  db_log :: "db_op list"

definition logged :: "db_op \<Rightarrow> world \<Rightarrow> world" where
  "logged c w = w\<lparr>db_log := db_log w @ [c]\<rparr>"

text \<open>What the environment supplies to a handler: the clock, a fresh id, a random suffix.\<close>

record env =
  now :: nat
  new_id :: oid
  rand36 :: string

record user_view =
  uv_id :: oid
  uv_name :: string
  uv_email :: string
  uv_role :: string

text \<open>A booking whose \<open>clientId\<close> was populated with the fields \<open>name email\<close>.\<close>

record populated_user =
  pu_id :: oid
  pu_name :: string
  pu_email :: string

record populated_booking =
  pb_booking :: booking
  pb_client :: "populated_user option"

record stats =
  totalBookings :: nat
  totalRevenue :: js_number
  totalTrips :: nat
  totalVehicles :: nat

text \<open>The JSON bodies the handlers send.\<close>

datatype reply =
  ErrorReply string
  | ErrorMessageReply string string
  | AuthReply string string user_view
  | BookingMessageReply string booking
  | BookingReply populated_booking
  | StatsReply stats

record response =
  code :: nat
  json :: reply

record 'b request =
  authorization :: "string option"
  req_user :: "payload option"
  params_id :: oid
  body :: 'b

subsection \<open>Middleware\<close>

text \<open>\<open>s.split(' ')\<close>: the pieces between single space characters, empty pieces kept.\<close>

fun split_space :: "string \<Rightarrow> string list" where
  "split_space [] = [[]]"
| "split_space (c # cs) =
     (if c = CHR '' '' then [] # split_space cs
      else (case split_space cs of
              [] \<Rightarrow> [[c]]
            | p # ps \<Rightarrow> (c # p) # ps))"

text \<open>\<open>xs[1]\<close>, \<open>undefined\<close> when there is no second element.\<close>

fun index1 :: "'a list \<Rightarrow> 'a option" where
  "index1 (x # y # ys) = Some y"
| "index1 xs = None"

text \<open>
  \<open>authHeader && authHeader.split(' ')[1]\<close>. The test \<open>!token\<close> of the middleware holds
  for \<open>undefined\<close> and for the empty string.
\<close>

definition header_token :: "string option \<Rightarrow> string option" where
  "header_token authHeader =
     (case authHeader of
        None \<Rightarrow> None
      | Some h \<Rightarrow> if h = [] then Some [] else index1 (split_space h))"

definition authenticateToken ::
  "libs \<Rightarrow> config \<Rightarrow> env \<Rightarrow> 'b request \<Rightarrow> world \<Rightarrow> (response + 'b request) \<times> world" where
  "authenticateToken L cfg e req w =
     (let unauthenticated = \<lparr>code = 401, json = ErrorReply ''Access token required''\<rparr> in
      case header_token (authorization req) of
        None \<Rightarrow> (Inl unauthenticated, w)
      | Some token \<Rightarrow>
          if token = [] then (Inl unauthenticated, w)
          else (case jwt_verify L (now e) token (jwtSecret cfg) of
                  Inl err \<Rightarrow>
                    (Inl \<lparr>code = 403, json = ErrorReply ''Invalid or expired token''\<rparr>, w)
                | Inr u \<Rightarrow> (Inr (req\<lparr>req_user := Some u\<rparr>), w)))"

text \<open>\<open>errorHandler\<close>, for an error with message \<open>msg\<close> passed on by a middleware.\<close>

definition errorHandler :: "config \<Rightarrow> string \<Rightarrow> response" where
  "errorHandler cfg msg =
     \<lparr>code = 500,
      json = ErrorMessageReply ''Something went wrong!''
               (if environment cfg = ''development'' then msg else ''Internal server error'')\<rparr>"

subsection \<open>Failures and their messages\<close>

text \<open>
  What a handler's \<open>catch\<close> block can receive in the model: a mongoose validation error
  (model name, then path and message of every failed validator), the error of
  \<open>bcryptjs\<close> for an argument that is not a string, a duplicate key on a unique index,
  and a \<open>TypeError\<close> for a property read on \<open>undefined\<close> or \<open>null\<close>. The texts follow
  the libraries' wording; the key of a duplicate is given without its quotation marks.
\<close>

datatype failure =
  ValidationError string "(string \<times> string) list"
  | IllegalArguments string string
  | DuplicateKey string string
  | TypeError string string

fun join_with :: "string \<Rightarrow> string list \<Rightarrow> string" where
  "join_with sep [] = []"
| "join_with sep [x] = x"
| "join_with sep (x # y # ys) = x @ sep @ join_with sep (y # ys)"

fun message :: "failure \<Rightarrow> string" where
  "message (ValidationError model errs) =
     model @ '' validation failed: '' @ join_with '', '' (map (\<lambda>(p, m). p @ '': '' @ m) errs)"
| "message (IllegalArguments a b) = ''Illegal arguments: '' @ a @ '', '' @ b"
| "message (DuplicateKey index v) =
     ''E11000 duplicate key error index: '' @ index @ '' dup key: '' @ v"
| "message (TypeError v prop) =
     ''Cannot read properties of '' @ v @ '' (reading '' @ [CHR 0x27] @ prop @ [CHR 0x27] @ '')''"

text \<open>The \<open>catch\<close> block of every controller: \<open>res.status(500).json({ error: error.message })\<close>.\<close>

definition catch_500 :: "failure \<Rightarrow> response" where
  "catch_500 f = \<lparr>code = 500, json = ErrorReply (message f)\<rparr>"

subsection \<open>Library model: mongoose schemas\<close>

text \<open>
  \<open>required: true\<close> on a string path fails for \<open>undefined\<close> and for the empty string, on
  another path for \<open>undefined\<close>; \<open>enum\<close> is checked only for a defined value; a
  \<open>default\<close> fills a path that is \<open>undefined\<close>. Validators run in \<open>save()\<close>;
  \<open>findByIdAndUpdate\<close> runs none unless \<open>runValidators\<close> is set, which the source never
  does.
\<close>

definition required_string :: "string \<Rightarrow> string option \<Rightarrow> (string \<times> string) list" where
  "required_string path v =
     (case v of
        None \<Rightarrow> [(path, ''Path `'' @ path @ ''` is required.'')]
      | Some s \<Rightarrow> if s = [] then [(path, ''Path `'' @ path @ ''` is required.'')] else [])"

definition required_value :: "string \<Rightarrow> 'a option \<Rightarrow> (string \<times> string) list" where
  "required_value path v =
     (case v of
        None \<Rightarrow> [(path, ''Path `'' @ path @ ''` is required.'')]
      | Some x \<Rightarrow> [])"

definition enum_check :: "string \<Rightarrow> string list \<Rightarrow> string option \<Rightarrow> (string \<times> string) list" where
  "enum_check path allowed v =
     (case v of
        None \<Rightarrow> []
      | Some s \<Rightarrow>
          if s \<in> set allowed then []
          else [(path, ''`'' @ s @ ''` is not a valid enum value for path `'' @ path @ ''`.'')])"

definition with_default :: "'a \<Rightarrow> 'a option \<Rightarrow> 'a" where
  "with_default d v = (case v of None \<Rightarrow> d | Some x \<Rightarrow> x)"

definition user_roles :: "string list" where
  "user_roles = [''admin'', ''user'', ''driver'', ''pilot'']"

definition cargo_types :: "string list" where
  "cargo_types = [''general'', ''hazardous'', ''perishable'', ''valuable'']"

definition booking_statuses :: "string list" where
  "booking_statuses = [''pending'', ''confirmed'', ''in-transit'', ''delivered'', ''cancelled'']"

definition payment_statuses :: "string list" where
  "payment_statuses = [''pending'', ''paid'', ''refunded'']"

text \<open>An update through the model changes the first document the filter matches.\<close>

fun update_first :: "('a \<Rightarrow> bool) \<Rightarrow> ('a \<Rightarrow> 'a) \<Rightarrow> 'a list \<Rightarrow> 'a list" where
  "update_first P f [] = []"
| "update_first P f (x # xs) = (if P x then f x # xs else x # update_first P f xs)"

subsection \<open>User controller\<close>

record register_body =
  rb_name :: "string option"
  rb_email :: "string option"
  rb_password :: "string option"
  rb_role :: "string option"
  rb_phone :: "string option"
  rb_address :: "string option"

record login_body =
  lb_email :: "string option"
  lb_password :: "string option"

text \<open>The validators of \<open>userSchema\<close>, in the order of its paths.\<close>

definition user_validate ::
  "string option \<Rightarrow> string option \<Rightarrow> string option \<Rightarrow> string option \<Rightarrow> (string \<times> string) list" where
  "user_validate nm em pw r =
     required_string ''name'' nm @ required_string ''email'' em
     @ required_string ''password'' pw @ enum_check ''role'' user_roles r"

text \<open>
  \<open>User.findOne({ email })\<close>: every stored user has an email, so a filter whose email is
  \<open>undefined\<close> matches none.
\<close>

definition User_findOne_email :: "string option \<Rightarrow> world \<Rightarrow> user option" where
  "User_findOne_email em w = find (\<lambda>u. Some (u_email u) = em) (users w)"

definition register ::
  "libs \<Rightarrow> config \<Rightarrow> env \<Rightarrow> register_body request \<Rightarrow> world \<Rightarrow> response \<times> world" where
  "register L cfg e req w =
     (let b = body req; w1 = logged User_findOne w in
      case User_findOne_email (rb_email b) w of
        Some existingUser \<Rightarrow> (\<lparr>code = 400, json = ErrorReply ''User already exists''\<rparr>, w1)
      | None \<Rightarrow>
          (case rb_password b of
             None \<Rightarrow> (catch_500 (IllegalArguments ''undefined'' ''number''), w1)
           | Some password \<Rightarrow>
               let hashedPassword = bcrypt_hash L password;
                   errs = user_validate (rb_name b) (rb_email b) (Some hashedPassword) (rb_role b);
                   w2 = logged User_save w1
               in if errs = []
                  then
                    (let u = \<lparr>u_id = new_id e,
                              u_name = with_default [] (rb_name b),
                              u_email = with_default [] (rb_email b),
                              u_password = hashedPassword,
                              u_role = with_default ''user'' (rb_role b),
                              u_phone = rb_phone b,
                              u_address = rb_address b,
                              u_createdAt = now e,
                              u_lastLogin = None\<rparr>;
                         token = jwt_sign L (now e) (u_id u) (u_email u) (u_role u) (jwtSecret cfg)
                     in (\<lparr>code = 201,
                          json = AuthReply ''User registered successfully'' token
                                   \<lparr>uv_id = u_id u, uv_name = u_name u,
                                    uv_email = u_email u, uv_role = u_role u\<rparr>\<rparr>,
                         w2\<lparr>users := users w2 @ [u]\<rparr>))
                  else (catch_500 (ValidationError ''User'' errs), w2)))"

definition login ::
  "libs \<Rightarrow> config \<Rightarrow> env \<Rightarrow> login_body request \<Rightarrow> world \<Rightarrow> response \<times> world" where
  "login L cfg e req w =
     (let b = body req; w1 = logged User_findOne w in
      case User_findOne_email (lb_email b) w of
        None \<Rightarrow> (\<lparr>code = 400, json = ErrorReply ''Invalid credentials''\<rparr>, w1)
      | Some u \<Rightarrow>
          (case lb_password b of
             None \<Rightarrow> (catch_500 (IllegalArguments ''undefined'' ''string''), w1)
           | Some password \<Rightarrow>
               if bcrypt_compare L password (u_password u)
               then
                 (let w2 = logged User_save w1;
                      token = jwt_sign L (now e) (u_id u) (u_email u) (u_role u) (jwtSecret cfg)
                  in (\<lparr>code = 200,
                       json = AuthReply ''Login successful'' token
                                \<lparr>uv_id = u_id u, uv_name = u_name u,
                                 uv_email = u_email u, uv_role = u_role u\<rparr>\<rparr>,
                      w2\<lparr>users := update_first (\<lambda>x. u_id x = u_id u)
                                     (\<lambda>x. x\<lparr>u_lastLogin := Some (now e)\<rparr>) (users w2)\<rparr>))
               else (\<lparr>code = 400, json = ErrorReply ''Invalid credentials''\<rparr>, w1)))"

subsection \<open>Booking controller\<close>

record cargo_in =
  ci_description :: "string option"
  ci_weight :: "rat option"
  ci_dimensions :: "dimensions option"
  ci_type :: "string option"

record route_in =
  ri_from :: "string option"
  ri_to :: "string option"
  ri_departureDate :: "nat option"
  ri_arrivalDate :: "nat option"

text \<open>
  The body of \<open>POST /api/bookings\<close>. The handler reads \<open>cargoDetails\<close>, \<open>route\<close> and
  \<open>price\<close>; the other three fields are what a client may send besides.
\<close>

record booking_body =
  bb_cargoDetails :: "cargo_in option"
  bb_route :: "route_in option"
  bb_price :: "rat option"
  bb_status :: "string option"
  bb_paymentStatus :: "string option"
  bb_clientId :: "oid option"

record status_body =
  sb_status :: "string option"

text \<open>\<open>String(n)\<close> for a non-negative integer: its decimal digits.\<close>

fun show_nat :: "nat \<Rightarrow> string" where
  "show_nat n =
     (if n < 10 then [char_of (48 + n)]
      else show_nat (n div 10) @ [char_of (48 + n mod 10)])"

declare show_nat.simps [simp del]

text \<open>
  \<open>'AWB' + Date.now() + Math.random().toString(36).substr(2, 5).toUpperCase()\<close>, the
  random suffix being the environment's.
\<close>

definition new_airwayBill :: "env \<Rightarrow> string" where
  "new_airwayBill e = ''AWB'' @ show_nat (now e) @ rand36 e"

text \<open>The validators of \<open>bookingSchema\<close> on the paths the handler sets from the body.\<close>

definition booking_validate ::
  "cargo_in option \<Rightarrow> route_in option \<Rightarrow> rat option \<Rightarrow> (string \<times> string) list" where
  "booking_validate c r p =
     required_string ''cargoDetails.description'' (Option.bind c ci_description)
     @ required_value ''cargoDetails.weight'' (Option.bind c ci_weight)
     @ enum_check ''cargoDetails.type'' cargo_types (Option.bind c ci_type)
     @ required_string ''route.from'' (Option.bind r ri_from)
     @ required_string ''route.to'' (Option.bind r ri_to)
     @ required_value ''route.departureDate'' (Option.bind r ri_departureDate)
     @ required_value ''route.arrivalDate'' (Option.bind r ri_arrivalDate)
     @ required_value ''price'' p"

definition createBooking ::
  "libs \<Rightarrow> config \<Rightarrow> env \<Rightarrow> booking_body request \<Rightarrow> world \<Rightarrow> response \<times> world" where
  "createBooking L cfg e req w =
     (let cargoDetails = bb_cargoDetails (body req);
          route = bb_route (body req);
          price = bb_price (body req);
          airwayBill = new_airwayBill e
      in case req_user req of
           None \<Rightarrow> (catch_500 (TypeError ''undefined'' ''userId''), w)
         | Some caller \<Rightarrow>
             let errs = booking_validate cargoDetails route price;
                 w1 = logged Booking_save w
             in if errs = []
                then
                  (if airwayBill \<in> set (map booking.airwayBill (bookings w))
                   then (catch_500 (DuplicateKey ''airwayBill_1'' airwayBill), w1)
                   else
                     (let b = \<lparr>b_id = new_id e,
                               airwayBill = airwayBill,
                               clientId = userId caller,
                               cargo = \<lparr>description = with_default [] (Option.bind cargoDetails ci_description),
                                        weight = with_default 0 (Option.bind cargoDetails ci_weight),
                                        dims = Option.bind cargoDetails ci_dimensions,
                                        cargo_type = with_default ''general'' (Option.bind cargoDetails ci_type)\<rparr>,
                               b_route = \<lparr>route_from = with_default [] (Option.bind route ri_from),
                                          route_to = with_default [] (Option.bind route ri_to),
                                          departureDate = with_default 0 (Option.bind route ri_departureDate),
                                          arrivalDate = with_default 0 (Option.bind route ri_arrivalDate)\<rparr>,
                               status = ''pending'',
                               price = with_default 0 price,
                               paymentStatus = ''pending'',
                               createdAt = now e,
                               updatedAt = now e\<rparr>
                      in (\<lparr>code = 201, json = BookingMessageReply ''Booking created successfully'' b\<rparr>,
                          w1\<lparr>bookings := bookings w1 @ [b]\<rparr>)))
                else (catch_500 (ValidationError ''Booking'' errs), w1))"

text \<open>
  \<open>populate('clientId', 'name email')\<close> replaces the reference by the referenced user
  document, restricted to \<open>_id\<close>, \<open>name\<close> and \<open>email\<close>, or by \<open>null\<close> when no user has
  that id.
\<close>

definition populate_clientId :: "world \<Rightarrow> booking \<Rightarrow> populated_booking" where
  "populate_clientId w b =
     \<lparr>pb_booking = b,
      pb_client = map_option (\<lambda>u. \<lparr>pu_id = u_id u, pu_name = u_name u, pu_email = u_email u\<rparr>)
                    (find (\<lambda>u. u_id u = clientId b) (users w))\<rparr>"

text \<open>
  \<open>toString()\<close> of a mongoose document is the rendering of the document as an object
  (\<open>Document.prototype.toString\<close> returns what \<open>inspect\<close> prints), not its id. The text
  below is indicative: field order, quotation marks and line breaks of \<open>util.inspect\<close>
  are not reproduced. It starts with a brace, which no id does.
\<close>

definition document_toString :: "populated_user \<Rightarrow> string" where
  "document_toString d =
     ''{ _id: new ObjectId('' @ pu_id d @ ''), name: '' @ pu_name d
     @ '', email: '' @ pu_email d @ '' }''"

definition getBookingById ::
  "libs \<Rightarrow> config \<Rightarrow> env \<Rightarrow> unit request \<Rightarrow> world \<Rightarrow> response \<times> world" where
  "getBookingById L cfg e req w =
     (let w1 = logged Booking_findById w in
      case find (\<lambda>b. b_id b = params_id req) (bookings w) of
        None \<Rightarrow> (\<lparr>code = 404, json = ErrorReply ''Booking not found''\<rparr>, w1)
      | Some found \<Rightarrow>
          let booking = populate_clientId w found;
              w2 = logged Booking_populate w1
          in (case req_user req of
                None \<Rightarrow> (catch_500 (TypeError ''undefined'' ''role''), w2)
              | Some caller \<Rightarrow>
                  if p_role caller = ''admin''
                  then (\<lparr>code = 200, json = BookingReply booking\<rparr>, w2)
                  else (case pb_client booking of
                          None \<Rightarrow> (catch_500 (TypeError ''null'' ''toString''), w2)
                        | Some client \<Rightarrow>
                            if document_toString client = userId caller
                            then (\<lparr>code = 200, json = BookingReply booking\<rparr>, w2)
                            else (\<lparr>code = 403, json = ErrorReply ''Access denied''\<rparr>, w2))))"

text \<open>
  \<open>Booking.findByIdAndUpdate(id, { status, updatedAt: new Date() }, { new: true })\<close>: no
  validator runs, so any string is stored; an \<open>undefined\<close> status is dropped from the
  update (as mongoose does from version 6 on).
\<close>

definition updateBookingStatus ::
  "libs \<Rightarrow> config \<Rightarrow> env \<Rightarrow> status_body request \<Rightarrow> world \<Rightarrow> response \<times> world" where
  "updateBookingStatus L cfg e req w =
     (let w1 = logged Booking_findByIdAndUpdate w in
      case find (\<lambda>b. b_id b = params_id req) (bookings w) of
        None \<Rightarrow> (\<lparr>code = 404, json = ErrorReply ''Booking not found''\<rparr>, w1)
      | Some found \<Rightarrow>
          let change = (\<lambda>b. b\<lparr>status := with_default (status b) (sb_status (body req)),
                               updatedAt := now e\<rparr>)
          in (\<lparr>code = 200, json = BookingMessageReply ''Booking status updated'' (change found)\<rparr>,
              w1\<lparr>bookings := update_first (\<lambda>b. b_id b = params_id req) change (bookings w1)\<rparr>))"

subsection \<open>Dashboard controller\<close>

text \<open>
  The pipeline \<open>[{ $match: { paymentStatus: 'paid' } }, { $group: { _id: null, total:
  { $sum: '$price' } } }]\<close>: no group when nothing matches, else one group whose total is
  the database's sum of the matching prices, in store order.
\<close>

definition aggregate_paid :: "libs \<Rightarrow> booking list \<Rightarrow> js_number list" where
  "aggregate_paid L bs =
     (let paid = filter (\<lambda>b. paymentStatus b = ''paid'') bs
      in if paid = [] then [] else [mongo_sum L (map price paid)])"

text \<open>
  \<open>totalRevenue[0]?.total || 0\<close>: the literal 0 stands in for \<open>undefined\<close> and for the
  falsy numbers, which are zero and \<open>NaN\<close>.
\<close>

definition total_or_zero :: "js_number list \<Rightarrow> js_number" where
  "total_or_zero res =
     (case res of
        [] \<Rightarrow> Finite 0
      | t # ts \<Rightarrow> if t = Finite 0 then Finite 0 else if t = NaN then Finite 0 else t)"


text \<open>
  \<open>getStats\<close>; of its reply the \<open>stats\<close> object is modelled, the lists
  \<open>recentBookings\<close> and \<open>activeTrips\<close> are not.
\<close>

definition getStats ::
  "libs \<Rightarrow> config \<Rightarrow> env \<Rightarrow> unit request \<Rightarrow> world \<Rightarrow> response \<times> world" where
  "getStats L cfg e req w =
     (let w1 = logged Booking_countDocuments w;
          w2 = logged Booking_aggregate w1;
          w3 = logged Trip_countDocuments w2;
          w4 = logged Vehicle_countDocuments w3
      in (\<lparr>code = 200,
           json = StatsReply \<lparr>totalBookings = length (bookings w),
                              totalRevenue = total_or_zero (aggregate_paid L (bookings w)),
                              totalTrips = length (trips w),
                              totalVehicles = length (vehicles w)\<rparr>\<rparr>,
          w4))"

subsection \<open>Routes\<close>

text \<open>
  The routes over the user and booking collections that the development covers. A
  protected route runs \<open>authenticateToken\<close> first and its handler only after \<open>next()\<close>.
  \<open>Booking.save\<close> and \<open>Booking.findByIdAndUpdate\<close> occur in no other handler of the
  source.
\<close>

datatype api_call =
  Register "register_body request"
  | Login "login_body request"
  | CreateBooking "booking_body request"
  | GetBookingById "unit request"
  | UpdateBookingStatus "status_body request"
  | GetStats "unit request"

definition protected ::
  "libs \<Rightarrow> config \<Rightarrow> env \<Rightarrow> ('b request \<Rightarrow> world \<Rightarrow> response \<times> world) \<Rightarrow> 'b request \<Rightarrow> world
   \<Rightarrow> response \<times> world" where
  "protected L cfg e handler req w =
     (case authenticateToken L cfg e req w of
        (Inl res, w') \<Rightarrow> (res, w')
      | (Inr req', w') \<Rightarrow> handler req' w')"

fun handle :: "libs \<Rightarrow> config \<Rightarrow> env \<Rightarrow> api_call \<Rightarrow> world \<Rightarrow> response \<times> world" where
  "handle L cfg e (Register req) w = register L cfg e req w"
| "handle L cfg e (Login req) w = login L cfg e req w"
| "handle L cfg e (CreateBooking req) w = protected L cfg e (createBooking L cfg e) req w"
| "handle L cfg e (GetBookingById req) w = protected L cfg e (getBookingById L cfg e) req w"
| "handle L cfg e (UpdateBookingStatus req) w =
     protected L cfg e (updateBookingStatus L cfg e) req w"
| "handle L cfg e (GetStats req) w = protected L cfg e (getStats L cfg e) req w"

text \<open>A sequence of requests, each with what the environment supplies when it is served.\<close>

fun serve :: "libs \<Rightarrow> config \<Rightarrow> (env \<times> api_call) list \<Rightarrow> world \<Rightarrow> world" where
  "serve L cfg [] w = w"
| "serve L cfg ((e, c) # cs) w = serve L cfg cs (snd (handle L cfg e c w))"

subsection \<open>Observations and sample data\<close>

text \<open>The owner of every stored booking, in store order.\<close>

definition owners :: "world \<Rightarrow> (oid \<times> oid) list" where
  "owners w = map (\<lambda>b. (b_id b, clientId b)) (bookings w)"

text \<open>
  Sample data for evaluating the handlers: a user, a token issued to that user at clock
  reading 500 ms under the key of \<open>sample_cfg\<close>, a codec that knows this one token, a
  booking of that user, a store holding both, and two paid bookings whose prices are the
  doubles that the decimals 0.1 and 0.2 denote.
\<close>

definition sample_claims :: payload where
  "sample_claims = signed_claims 500 ''507f1f77bcf86cd799439011'' ''a@x.com'' ''user''"

text \<open>
  Rounding a rational to the nearest double (binary64: 53 significant bits, ties to the
  even significand, gradual underflow below \<open>2^-1022\<close>, infinity from \<open>2^1024\<close> on). The
  sample \<open>$sum\<close> is the correctly rounded sum, which is what a summation in doubles
  returns for two addends.
\<close>

function bit_length :: "int \<Rightarrow> nat" where
  "bit_length n = (if n \<le> 0 then 0 else Suc (bit_length (n div 2)))"
  by auto
termination
  by (relation "measure nat") auto

declare bit_length.simps [simp del]

definition pow2 :: "int \<Rightarrow> rat" where
  "pow2 k = (if 0 \<le> k then 2 ^ nat k else 1 / 2 ^ nat (- k))"

text \<open>For \<open>0 < x\<close>: the \<open>k\<close> with \<open>2^k \<le> x < 2^(k+1)\<close>.\<close>

definition floor_log2 :: "rat \<Rightarrow> int" where
  "floor_log2 x =
     (case quotient_of x of
        (p, q) \<Rightarrow>
          let k = int (bit_length p) - int (bit_length q)
          in if pow2 k \<le> x then k else k - 1)"

definition round_half_even :: "rat \<Rightarrow> int" where
  "round_half_even r =
     (let f = \<lfloor>r\<rfloor>; d = r - of_int f
      in if d < 1 / 2 then f else if 1 / 2 < d then f + 1
         else if even f then f else f + 1)"

definition to_double :: "rat \<Rightarrow> js_number" where
  "to_double x =
     (if x = 0 then Finite 0
      else
        let a = \<bar>x\<bar>;
            k = max (floor_log2 a - 52) (- 1074);
            m = round_half_even (a / pow2 k);
            v = of_int m * pow2 k
        in if m = 0 then Finite 0
           else if 1024 \<le> floor_log2 v then (if 0 < x then PlusInfinity else MinusInfinity)
           else Finite (if 0 < x then v else - v))"

definition sample_libs :: libs where
  "sample_libs =
     \<lparr>jws_encode = (\<lambda>t. if t = \<lparr>signing_key = ''k'', claims = sample_claims\<rparr>
                         then ''tok'' else ''other''),
      jws_decode = (\<lambda>s. if s = ''tok'' then Some \<lparr>signing_key = ''k'', claims = sample_claims\<rparr>
                         else None),
      bcrypt_hash = (\<lambda>s. CHR ''#'' # s),
      bcrypt_compare = (\<lambda>s h. h = CHR ''#'' # s),
      mongo_sum = (\<lambda>ps. to_double (sum_list ps))\<rparr>"

definition sample_cfg :: config where
  "sample_cfg = \<lparr>jwtSecret = ''k'', environment = ''production''\<rparr>"

definition sample_env :: env where
  "sample_env = \<lparr>now = 1000, new_id = ''507f1f77bcf86cd799439099'', rand36 = ''X1Y2Z''\<rparr>"

definition sample_user :: user where
  "sample_user =
     \<lparr>u_id = ''507f1f77bcf86cd799439011'', u_name = ''Ann'', u_email = ''a@x.com'',
      u_password = ''#pw1'', u_role = ''user'', u_phone = None, u_address = None,
      u_createdAt = 0, u_lastLogin = None\<rparr>"

definition sample_booking :: booking where
  "sample_booking =
     \<lparr>b_id = ''507f1f77bcf86cd799439022'', airwayBill = ''AWB1ABCDE'',
      clientId = ''507f1f77bcf86cd799439011'',
      cargo = \<lparr>description = ''Electronics'', weight = 1200, dims = None,
               cargo_type = ''general''\<rparr>,
      b_route = \<lparr>route_from = ''LAX'', route_to = ''JFK'', departureDate = 10,
                 arrivalDate = 20\<rparr>,
      status = ''pending'', price = 2500, paymentStatus = ''paid'',
      createdAt = 1, updatedAt = 1\<rparr>"

definition sample_world :: world where
  "sample_world =
     \<lparr>users = [sample_user], bookings = [sample_booking], trips = [], vehicles = [],
      db_log = []\<rparr>"




definition sample_request :: "'b \<Rightarrow> 'b request" where
  "sample_request b =
     \<lparr>authorization = Some ''Bearer tok'', req_user = None,
      params_id = ''507f1f77bcf86cd799439022'', body = b\<rparr>"

text \<open>A valid booking body that also carries a status, a payment status and an owner.\<close>

definition sample_booking_body :: booking_body where
  "sample_booking_body =
     \<lparr>bb_cargoDetails = Some \<lparr>ci_description = Some ''Books'', ci_weight = Some 10,
                               ci_dimensions = None, ci_type = None\<rparr>,
      bb_route = Some \<lparr>ri_from = Some ''LAX'', ri_to = Some ''JFK'',
                        ri_departureDate = Some 5, ri_arrivalDate = Some 6\<rparr>,
      bb_price = Some 40, bb_status = Some ''delivered'', bb_paymentStatus = Some ''paid'',
      bb_clientId = Some ''507f1f77bcf86cd7994390ff''\<rparr>"

section \<open>Properties\<close>

lemmas sample_defs =
  sample_world_def sample_user_def sample_booking_def sample_request_def sample_libs_def
  sample_cfg_def sample_env_def sample_claims_def signed_claims_def expiresIn_24h_def

lemmas gate_defs =
  protected_def authenticateToken_def header_token_def jwt_verify_def Let_def


subsection \<open>Splitting the authorization header\<close>

lemma split_space_no_space: "CHR '' '' \<notin> set s \<Longrightarrow> split_space s = [s]"
  by (induction s) auto

lemma split_space_at_space:
  "CHR '' '' \<notin> set s \<Longrightarrow> split_space (s @ CHR '' '' # r) = s # split_space r"
  by (induction s) auto

lemma header_token_second:
  assumes "CHR '' '' \<notin> set scheme" and "CHR '' '' \<notin> set tok"
  shows "header_token (Some (scheme @ CHR '' '' # tok)) = Some tok"
    and "header_token (Some (scheme @ CHR '' '' # tok @ CHR '' '' # rest)) = Some tok"
  using assms
  by (simp_all add: header_token_def split_space_at_space split_space_no_space)

lemma header_token_single:
  assumes "CHR '' '' \<notin> set h"
  shows "header_token (Some h) = (if h = [] then Some [] else None)"
  using assms by (simp add: header_token_def split_space_no_space)

lemma header_token_empty_piece:
  assumes "CHR '' '' \<notin> set scheme"
  shows "header_token (Some (scheme @ CHR '' '' # CHR '' '' # rest)) = Some []"
    and "header_token (Some (scheme @ [CHR '' ''])) = Some []"
  using assms by (simp_all add: header_token_def split_space_at_space)

lemma gate_by_token:
  "fst (authenticateToken L cfg e req w) =
     (case header_token (authorization req) of
        None \<Rightarrow> Inl \<lparr>code = 401, json = ErrorReply ''Access token required''\<rparr>
      | Some tok \<Rightarrow>
          if tok = [] then Inl \<lparr>code = 401, json = ErrorReply ''Access token required''\<rparr>
          else (case jwt_verify L (now e) tok (jwtSecret cfg) of
                  Inl err \<Rightarrow> Inl \<lparr>code = 403, json = ErrorReply ''Invalid or expired token''\<rparr>
                | Inr u \<Rightarrow> Inr (req\<lparr>req_user := Some u\<rparr>)))"
  by (simp add: authenticateToken_def Let_def split: option.splits sum.splits)

subsection \<open>Token lifetime\<close>

text \<open>
  Claim C1, as amended. A token issued at clock reading \<open>T\<close> (milliseconds) expires at the
  whole second \<open>T div 1000 + 86400\<close>: verification with the issuing key succeeds exactly
  while the clock's whole second is below that, hence at every time up to one second before
  \<open>T\<close> plus 24 hours (at \<open>T\<close> plus 23 h 59 min in particular), and fails with
  \<open>TokenExpiredError\<close> at every time from \<open>T\<close> plus 24 hours on (at \<open>T\<close> plus 24 h 01 min in
  particular). The hypothesis says that the serialisation of the issued token decodes to it.
\<close>

theorem token_validity_window:
  assumes dec: "jws_decode L (jwt_sign L T uid em r secret) =
                  Some \<lparr>signing_key = secret, claims = signed_claims T uid em r\<rparr>"
  shows "(t div 1000 < T div 1000 + 86400 \<longrightarrow>
            jwt_verify L t (jwt_sign L T uid em r secret) secret = Inr (signed_claims T uid em r))
       \<and> (T div 1000 + 86400 \<le> t div 1000 \<longrightarrow>
            jwt_verify L t (jwt_sign L T uid em r secret) secret = Inl TokenExpiredError)
       \<and> (t + 1000 \<le> T + 24 * 60 * 60 * 1000 \<longrightarrow>
            jwt_verify L t (jwt_sign L T uid em r secret) secret = Inr (signed_claims T uid em r))
       \<and> (T + 24 * 60 * 60 * 1000 \<le> t \<longrightarrow>
            jwt_verify L t (jwt_sign L T uid em r secret) secret = Inl TokenExpiredError)
       \<and> jwt_verify L (T + (23 * 60 + 59) * 60 * 1000) (jwt_sign L T uid em r secret) secret
            = Inr (signed_claims T uid em r)
       \<and> jwt_verify L (T + (24 * 60 + 1) * 60 * 1000) (jwt_sign L T uid em r secret) secret
            = Inl TokenExpiredError"
proof -
  have v: "jwt_verify L t' (jwt_sign L T uid em r secret) secret =
             (if T div 1000 + 86400 \<le> t' div 1000 then Inl TokenExpiredError
              else Inr (signed_claims T uid em r))" for t'
    by (simp add: jwt_verify_def dec signed_claims_def expiresIn_24h_def)
  have a: "t + 1000 \<le> T + 24 * 60 * 60 * 1000 \<Longrightarrow> t div 1000 < T div 1000 + 86400"
    by (simp add: less_eq_div_iff_mult_less_eq flip: not_le)
  have b: "T + 24 * 60 * 60 * 1000 \<le> t \<Longrightarrow> T div 1000 + 86400 \<le> t div 1000"
    by arith
  have c: "(T + (23 * 60 + 59) * 60 * 1000) div 1000 < T div 1000 + 86400"
    by simp
  have d: "T div 1000 + 86400 \<le> (T + (24 * 60 + 1) * 60 * 1000) div 1000"
    by simp
  show ?thesis
    unfolding v using a b c d by auto
qed

text \<open>
  Witness for C1: the sample token, issued at 500 ms, is accepted 23 h 59 min later and
  rejected 24 hours later.
\<close>

theorem token_validity_window_witness:
  "jwt_verify sample_libs (500 + (23 * 60 + 59) * 60 * 1000)
      (jwt_sign sample_libs 500 ''507f1f77bcf86cd799439011'' ''a@x.com'' ''user'' ''k'') ''k''
     = Inr sample_claims
   \<and> jwt_verify sample_libs 86400500
      (jwt_sign sample_libs 500 ''507f1f77bcf86cd799439011'' ''a@x.com'' ''user'' ''k'') ''k''
     = Inl TokenExpiredError"
proof -
  have dec: "jws_decode sample_libs
               (jwt_sign sample_libs 500 ''507f1f77bcf86cd799439011'' ''a@x.com'' ''user'' ''k'')
             = Some \<lparr>signing_key = ''k'',
                     claims = signed_claims 500 ''507f1f77bcf86cd799439011'' ''a@x.com'' ''user''\<rparr>"
    by (simp add: sample_libs_def jwt_sign_def sample_claims_def)
  show ?thesis
    using token_validity_window [OF dec, of 86400500]
    by (simp add: sample_claims_def)
qed

text \<open>
  Counterexample to C1 as stated: the sample token is issued at 500 ms, so 86400100 ms is
  strictly before issuance plus 24 hours, yet verification fails there: the expiry is
  counted from the whole second of issuance.
\<close>

theorem token_last_second_counterexample:
  "(86400100::nat) < 500 + 24 * 60 * 60 * 1000
   \<and> jwt_verify sample_libs 86400100
        (jwt_sign sample_libs 500 ''507f1f77bcf86cd799439011'' ''a@x.com'' ''user'' ''k'') ''k''
      = Inl TokenExpiredError"
  by (simp add: sample_libs_def jwt_sign_def sample_claims_def jwt_verify_def signed_claims_def
      expiresIn_24h_def)

subsection \<open>The authentication gate\<close>

text \<open>
  Claim C5. For every request, \<open>authenticateToken\<close> leaves the store as it was (no model
  method is called, \<open>db_log\<close> included) and its outcome does not depend on the store. When
  the header is missing or yields no token it answers 401 \<open>Access token required\<close>; when
  \<open>jwt.verify\<close> fails it answers 403 \<open>Invalid or expired token\<close>; when the token decodes
  under the configured key and is not expired, the request goes on with the token's
  payload (\<open>userId\<close>, \<open>email\<close>, \<open>role\<close>) as \<open>req.user\<close>.
\<close>

theorem auth_gate_outcomes:
  "snd (authenticateToken L cfg e req w) = w
   \<and> fst (authenticateToken L cfg e req w) = fst (authenticateToken L cfg e req w')
   \<and> (header_token (authorization req) = None \<or> header_token (authorization req) = Some [] \<longrightarrow>
        fst (authenticateToken L cfg e req w)
          = Inl \<lparr>code = 401, json = ErrorReply ''Access token required''\<rparr>)
   \<and> (header_token (authorization req) = Some tok \<and> tok \<noteq> []
        \<and> jwt_verify L (now e) tok (jwtSecret cfg) = Inl err \<longrightarrow>
        fst (authenticateToken L cfg e req w)
          = Inl \<lparr>code = 403, json = ErrorReply ''Invalid or expired token''\<rparr>)
   \<and> (header_token (authorization req) = Some tok \<and> tok \<noteq> []
        \<and> jws_decode L tok = Some j \<and> signing_key j = jwtSecret cfg
        \<and> now e div 1000 < exp (claims j) \<longrightarrow>
        fst (authenticateToken L cfg e req w) = Inr (req\<lparr>req_user := Some (claims j)\<rparr>))
   \<and> (authorization req = None \<longrightarrow>
        fst (authenticateToken L cfg e req w)
          = Inl \<lparr>code = 401, json = ErrorReply ''Access token required''\<rparr>)"
  by (auto simp: authenticateToken_def jwt_verify_def header_token_def Let_def
      split: option.splits sum.splits)

text \<open>
  Witness for C5: the sample request passes with the sample claims attached, the same
  request without the header gets 401, and one with an unknown token gets 403.
\<close>

theorem auth_gate_outcomes_witness:
  "authenticateToken sample_libs sample_cfg sample_env (sample_request ()) sample_world
     = (Inr (sample_request ()\<lparr>req_user := Some sample_claims\<rparr>), sample_world)
   \<and> authenticateToken sample_libs sample_cfg sample_env
        (sample_request ()\<lparr>authorization := None\<rparr>) sample_world
     = (Inl \<lparr>code = 401, json = ErrorReply ''Access token required''\<rparr>, sample_world)
   \<and> authenticateToken sample_libs sample_cfg sample_env
        (sample_request ()\<lparr>authorization := Some ''Bearer forged''\<rparr>) sample_world
     = (Inl \<lparr>code = 403, json = ErrorReply ''Invalid or expired token''\<rparr>, sample_world)"
proof -
  have h1: "header_token (authorization (sample_request ())) = Some ''tok''"
    by (simp add: sample_request_def header_token_def)
  have d1: "jws_decode sample_libs ''tok'' = Some \<lparr>signing_key = ''k'', claims = sample_claims\<rparr>"
    by (simp add: sample_libs_def)
  have e1: "now sample_env div 1000 < exp sample_claims"
    by (simp add: sample_env_def sample_claims_def signed_claims_def expiresIn_24h_def)
  have h3: "header_token (authorization (sample_request ()\<lparr>authorization := Some ''Bearer forged''\<rparr>))
              = Some ''forged''"
    by (simp add: header_token_def)
  have v3: "jwt_verify sample_libs (now sample_env) ''forged'' (jwtSecret sample_cfg)
              = Inl JsonWebTokenError"
    by (simp add: jwt_verify_def sample_libs_def)
  show ?thesis
    using auth_gate_outcomes [of sample_libs sample_cfg sample_env "sample_request ()"
        sample_world sample_world "''tok''" JsonWebTokenError
        "\<lparr>signing_key = ''k'', claims = sample_claims\<rparr>"]
      auth_gate_outcomes [of sample_libs sample_cfg sample_env
        "sample_request ()\<lparr>authorization := None\<rparr>" sample_world sample_world]
      auth_gate_outcomes [of sample_libs sample_cfg sample_env
        "sample_request ()\<lparr>authorization := Some ''Bearer forged''\<rparr>" sample_world sample_world
        "''forged''" JsonWebTokenError]
      h1 d1 e1 h3 v3
    by (simp add: prod_eq_iff sample_cfg_def)
qed

text \<open>
  Claim C10, as amended. The header is cut at every single space character. When the first
  piece \<open>scheme\<close> and the second piece \<open>tok\<close> hold no space and \<open>tok\<close> is not empty, the
  gate verifies \<open>tok\<close>, whatever \<open>scheme\<close> is and whatever follows a further space. A
  header without a space, or one whose second piece is empty (a trailing space, two
  spaces in a row), gets 401.
\<close>

theorem auth_header_pieces:
  assumes s: "CHR '' '' \<notin> set scheme" and t: "CHR '' '' \<notin> set tok"
  shows "(tok \<noteq> [] \<and> (authorization req = Some (scheme @ '' '' @ tok)
                        \<or> authorization req = Some (scheme @ '' '' @ tok @ '' '' @ rest)) \<longrightarrow>
           fst (authenticateToken L cfg e req w)
             = (case jwt_verify L (now e) tok (jwtSecret cfg) of
                  Inl err \<Rightarrow> Inl \<lparr>code = 403, json = ErrorReply ''Invalid or expired token''\<rparr>
                | Inr u \<Rightarrow> Inr (req\<lparr>req_user := Some u\<rparr>)))
       \<and> (authorization req = Some scheme \<or> authorization req = Some (scheme @ '' '')
          \<or> authorization req = Some (scheme @ ''  '' @ rest) \<longrightarrow>
           fst (authenticateToken L cfg e req w)
             = Inl \<lparr>code = 401, json = ErrorReply ''Access token required''\<rparr>)"
proof (intro conjI impI)
  assume a: "tok \<noteq> [] \<and> (authorization req = Some (scheme @ '' '' @ tok)
                        \<or> authorization req = Some (scheme @ '' '' @ tok @ '' '' @ rest))"
  then have "header_token (authorization req) = Some tok"
    using header_token_second [OF s t] by auto
  with a show "fst (authenticateToken L cfg e req w)
             = (case jwt_verify L (now e) tok (jwtSecret cfg) of
                  Inl err \<Rightarrow> Inl \<lparr>code = 403, json = ErrorReply ''Invalid or expired token''\<rparr>
                | Inr u \<Rightarrow> Inr (req\<lparr>req_user := Some u\<rparr>))"
    by (simp add: gate_by_token)
next
  assume "authorization req = Some scheme \<or> authorization req = Some (scheme @ '' '')
          \<or> authorization req = Some (scheme @ ''  '' @ rest)"
  then have "header_token (authorization req) = None \<or> header_token (authorization req) = Some []"
    using header_token_single [OF s] header_token_empty_piece [OF s] by auto
  then show "fst (authenticateToken L cfg e req w)
             = Inl \<lparr>code = 401, json = ErrorReply ''Access token required''\<rparr>"
    by (auto simp: gate_by_token)
qed

text \<open>
  Witness for C10: the scheme \<open>Basic\<close> is accepted like \<open>Bearer\<close>, and a header of one
  word is rejected.
\<close>

theorem auth_header_pieces_witness:
  "fst (authenticateToken sample_libs sample_cfg sample_env
          (sample_request ()\<lparr>authorization := Some ''Basic tok''\<rparr>) sample_world)
     = Inr (sample_request ()\<lparr>authorization := Some ''Basic tok'', req_user := Some sample_claims\<rparr>)
   \<and> fst (authenticateToken sample_libs sample_cfg sample_env
          (sample_request ()\<lparr>authorization := Some ''tok''\<rparr>) sample_world)
     = Inl \<lparr>code = 401, json = ErrorReply ''Access token required''\<rparr>"
proof -
  have v: "jwt_verify sample_libs (now sample_env) ''tok'' (jwtSecret sample_cfg) = Inr sample_claims"
    by (simp add: jwt_verify_def sample_libs_def sample_cfg_def sample_env_def sample_claims_def
        signed_claims_def expiresIn_24h_def)
  show ?thesis
    using auth_header_pieces [of "''Basic''" "''tok''"
        "sample_request ()\<lparr>authorization := Some ''Basic tok''\<rparr>" "[]"
        sample_libs sample_cfg sample_env sample_world]
      auth_header_pieces [of "''tok''" "[]"
        "sample_request ()\<lparr>authorization := Some ''tok''\<rparr>" "[]"
        sample_libs sample_cfg sample_env sample_world]
      v
    by simp
qed

text \<open>
  Counterexample to C10 as stated: \<open>Bearer\<close> and a valid token separated by two spaces are
  two whitespace-separated words, yet the gate answers 401: the second piece is empty.
\<close>

theorem auth_header_two_spaces_counterexample:
  "jwt_verify sample_libs (now sample_env) ''tok'' (jwtSecret sample_cfg) = Inr sample_claims
   \<and> fst (authenticateToken sample_libs sample_cfg sample_env
            (sample_request ()\<lparr>authorization := Some ''Bearer  tok''\<rparr>) sample_world)
      = Inl \<lparr>code = 401, json = ErrorReply ''Access token required''\<rparr>"
  by (simp add: jwt_verify_def sample_libs_def sample_cfg_def sample_env_def sample_claims_def
      signed_claims_def expiresIn_24h_def authenticateToken_def header_token_def)

subsection \<open>Login\<close>

text \<open>
  Claim C4. For a stored identity \<open>u\<close> (the one \<open>findOne\<close> returns for its email) and a
  password that does not match its hash, and for an email that no stored identity has,
  \<open>login\<close> sends the same response: status 400 with the body
  \<open>{ error: 'Invalid credentials' }\<close>.
\<close>

theorem login_same_failure:
  assumes stored: "User_findOne_email (Some (u_email u)) w = Some u"
    and wrong: "\<not> bcrypt_compare L pw (u_password u)"
    and unknown: "User_findOne_email (Some em') w = None"
    and b1: "body req = \<lparr>lb_email = Some (u_email u), lb_password = Some pw\<rparr>"
    and b2: "body req' = \<lparr>lb_email = Some em', lb_password = pw'\<rparr>"
  shows "fst (login L cfg e req w) = \<lparr>code = 400, json = ErrorReply ''Invalid credentials''\<rparr>
       \<and> fst (login L cfg e' req' w) = fst (login L cfg e req w)"
  using assms by (simp add: login_def Let_def)

text \<open>
  Witness for C4: a wrong password for the sample user and a login with an unknown email.
\<close>

theorem login_same_failure_witness:
  "fst (login sample_libs sample_cfg sample_env
          (sample_request \<lparr>lb_email = Some ''a@x.com'', lb_password = Some ''guess''\<rparr>)
          sample_world)
     = \<lparr>code = 400, json = ErrorReply ''Invalid credentials''\<rparr>
   \<and> fst (login sample_libs sample_cfg sample_env
          (sample_request \<lparr>lb_email = Some ''nobody@x.com'', lb_password = Some ''pw1''\<rparr>)
          sample_world)
     = \<lparr>code = 400, json = ErrorReply ''Invalid credentials''\<rparr>"
proof -
  have stored: "User_findOne_email (Some (u_email sample_user)) sample_world = Some sample_user"
    by (simp add: User_findOne_email_def sample_world_def)
  have wrong: "\<not> bcrypt_compare sample_libs ''guess'' (u_password sample_user)"
    by (simp add: sample_libs_def sample_user_def)
  have unknown: "User_findOne_email (Some ''nobody@x.com'') sample_world = None"
    by (simp add: User_findOne_email_def sample_world_def sample_user_def)
  have b1: "body (sample_request \<lparr>lb_email = Some ''a@x.com'', lb_password = Some ''guess''\<rparr>)
              = \<lparr>lb_email = Some (u_email sample_user), lb_password = Some ''guess''\<rparr>"
    by (simp add: sample_request_def sample_user_def)
  have b2: "body (sample_request \<lparr>lb_email = Some ''nobody@x.com'', lb_password = Some ''pw1''\<rparr>)
              = \<lparr>lb_email = Some ''nobody@x.com'', lb_password = Some ''pw1''\<rparr>"
    by (simp add: sample_request_def)
  show ?thesis
    using login_same_failure [OF stored wrong unknown b1 b2, of sample_cfg sample_env sample_env]
    by simp
qed

subsection \<open>Registration\<close>

lemma user_validate_ok:
  assumes "nm \<noteq> []" "em \<noteq> []" "h \<noteq> []"
  shows "user_validate (Some nm) (Some em) (Some h) None = []"
    and "r \<in> set user_roles \<Longrightarrow> user_validate (Some nm) (Some em) (Some h) (Some r) = []"
    and "r \<notin> set user_roles \<Longrightarrow> user_validate (Some nm) (Some em) (Some h) (Some r) \<noteq> []"
  using assms by (simp_all add: user_validate_def required_string_def enum_check_def)

text \<open>
  Claim C2, as amended. For a registration with a non-empty name, email and password and an
  email not yet stored: when the role is absent, \<open>register\<close> answers 201 and stores the
  identity with role \<open>user\<close>; when the role is present and not one of the four recognised
  roles, \<open>save()\<close> fails validation, \<open>register\<close> answers 500 and stores nothing.
\<close>

theorem register_role:
  assumes fresh: "User_findOne_email (Some em) w = None"
    and nm: "rb_name (body req) = Some nm" "nm \<noteq> []"
    and em: "rb_email (body req) = Some em" "em \<noteq> []"
    and pw: "rb_password (body req) = Some pw" "bcrypt_hash L pw \<noteq> []"
  shows "(rb_role (body req) = None \<longrightarrow>
            code (fst (register L cfg e req w)) = 201
            \<and> (\<exists>u. users (snd (register L cfg e req w)) = users w @ [u]
                    \<and> u_email u = em \<and> u_role u = ''user''))
       \<and> (rb_role (body req) = Some r \<and> r \<notin> set user_roles \<longrightarrow>
            code (fst (register L cfg e req w)) = 500
            \<and> users (snd (register L cfg e req w)) = users w)"
proof -
  have absent: "code (fst (register L cfg e req w)) = 201
            \<and> (\<exists>u. users (snd (register L cfg e req w)) = users w @ [u]
                    \<and> u_email u = em \<and> u_role u = ''user'')"
    if "rb_role (body req) = None"
    using that fresh nm em pw user_validate_ok(1) [of nm em "bcrypt_hash L pw"]
    by (simp add: register_def Let_def logged_def with_default_def)
  have unknown: "code (fst (register L cfg e req w)) = 500
            \<and> users (snd (register L cfg e req w)) = users w"
    if "rb_role (body req) = Some r \<and> r \<notin> set user_roles"
    using that fresh nm em pw user_validate_ok(3) [of nm em "bcrypt_hash L pw" r]
    by (simp add: register_def Let_def logged_def catch_500_def)
  show ?thesis
    using absent unknown by blast
qed

text \<open>
  Witness for C2: a registration without a role, and the same with the role \<open>manager\<close>.
\<close>

theorem register_role_witness:
  "code (fst (register sample_libs sample_cfg sample_env
           (sample_request \<lparr>rb_name = Some ''Bob'', rb_email = Some ''b@x.com'',
              rb_password = Some ''pw'', rb_role = None, rb_phone = None,
              rb_address = None\<rparr>) sample_world)) = 201
   \<and> (\<exists>u. users (snd (register sample_libs sample_cfg sample_env
           (sample_request \<lparr>rb_name = Some ''Bob'', rb_email = Some ''b@x.com'',
              rb_password = Some ''pw'', rb_role = None, rb_phone = None,
              rb_address = None\<rparr>) sample_world)) = users sample_world @ [u]
         \<and> u_email u = ''b@x.com'' \<and> u_role u = ''user'')
   \<and> code (fst (register sample_libs sample_cfg sample_env
           (sample_request \<lparr>rb_name = Some ''Bob'', rb_email = Some ''b@x.com'',
              rb_password = Some ''pw'', rb_role = Some ''manager'', rb_phone = None,
              rb_address = None\<rparr>) sample_world)) = 500"
proof -
  have fresh: "User_findOne_email (Some ''b@x.com'') sample_world = None"
    by (simp add: User_findOne_email_def sample_world_def sample_user_def)
  have h: "bcrypt_hash sample_libs ''pw'' \<noteq> []"
    by (simp add: sample_libs_def)
  have r: "''manager'' \<notin> set user_roles"
    by (simp add: user_roles_def)
  show ?thesis
    using register_role [OF fresh _ _ _ _ _ h, of
        "sample_request \<lparr>rb_name = Some ''Bob'', rb_email = Some ''b@x.com'',
              rb_password = Some ''pw'', rb_role = None, rb_phone = None,
              rb_address = None\<rparr>" "''Bob''" sample_cfg sample_env]
      register_role [OF fresh _ _ _ _ _ h, of
        "sample_request \<lparr>rb_name = Some ''Bob'', rb_email = Some ''b@x.com'',
              rb_password = Some ''pw'', rb_role = Some ''manager'', rb_phone = None,
              rb_address = None\<rparr>" "''Bob''" sample_cfg sample_env "''manager''"] r
    by (simp add: sample_request_def)
qed

text \<open>
  Counterexample to C2 as stated: with the unrecognised role \<open>bogus\<close> the registration
  does not succeed; the answer is 500 and no identity is stored.
\<close>

theorem register_unknown_role_counterexample:
  "''bogus'' \<notin> set user_roles
   \<and> code (fst (register sample_libs sample_cfg sample_env
           (sample_request \<lparr>rb_name = Some ''Bob'', rb_email = Some ''b@x.com'',
              rb_password = Some ''pw'', rb_role = Some ''bogus'', rb_phone = None,
              rb_address = None\<rparr>) sample_world)) = 500
   \<and> users (snd (register sample_libs sample_cfg sample_env
           (sample_request \<lparr>rb_name = Some ''Bob'', rb_email = Some ''b@x.com'',
              rb_password = Some ''pw'', rb_role = Some ''bogus'', rb_phone = None,
              rb_address = None\<rparr>) sample_world)) = users sample_world"
  by (simp add: register_def Let_def logged_def catch_500_def User_findOne_email_def
      sample_world_def sample_user_def sample_request_def sample_libs_def user_roles_def
      user_validate_def required_string_def enum_check_def)

subsection \<open>Bookings\<close>

text \<open>
  Claim C3, at the failing input. \<open>PUT /api/bookings/:id/status\<close> with the status
  \<open>shipped\<close>, which is outside the declared set, answers 200 and the stored booking then
  holds \<open>shipped\<close>: the update runs no validator.
\<close>

theorem update_status_unchecked:
  "''shipped'' \<notin> set booking_statuses
   \<and> code (fst (handle sample_libs sample_cfg sample_env
           (UpdateBookingStatus (sample_request \<lparr>sb_status = Some ''shipped''\<rparr>))
           sample_world)) = 200
   \<and> map status (bookings (snd (handle sample_libs sample_cfg sample_env
           (UpdateBookingStatus (sample_request \<lparr>sb_status = Some ''shipped''\<rparr>))
           sample_world))) = [''shipped'']"
  by (simp add: sample_defs gate_defs updateBookingStatus_def logged_def with_default_def
      booking_statuses_def)

text \<open>
  Claim C6, at the failing input. The sample user, whose role is \<open>user\<close>, asks for the
  booking they own and gets 403: after \<open>populate\<close> the handler compares the rendering of
  the user document, not its id, with the caller's id.
\<close>

theorem owner_denied_own_booking:
  "clientId sample_booking = userId sample_claims
   \<and> p_role sample_claims = ''user''
   \<and> fst (handle sample_libs sample_cfg sample_env (GetBookingById (sample_request ()))
          sample_world)
      = \<lparr>code = 403, json = ErrorReply ''Access denied''\<rparr>"
  by (simp add: sample_defs gate_defs getBookingById_def logged_def populate_clientId_def
      document_toString_def)

text \<open>What does hold for \<open>getBookingById\<close>: 404 for an unknown id, 200 for an admin.\<close>

lemma getBookingById_missing_or_admin:
  "(find (\<lambda>b. b_id b = params_id req) (bookings w) = None \<longrightarrow>
      fst (getBookingById L cfg e req w) = \<lparr>code = 404, json = ErrorReply ''Booking not found''\<rparr>)
   \<and> (find (\<lambda>b. b_id b = params_id req) (bookings w) = Some b
       \<and> req_user req = Some caller \<and> p_role caller = ''admin'' \<longrightarrow>
      fst (getBookingById L cfg e req w)
        = \<lparr>code = 200, json = BookingReply (populate_clientId w b)\<rparr>)"
  by (simp add: getBookingById_def Let_def)

lemma gate_keeps_world: "snd (authenticateToken L cfg e req w) = w"
  by (simp add: authenticateToken_def Let_def split: option.splits sum.splits)

lemma owners_update_first:
  "map (\<lambda>b. (b_id b, clientId b))
     (update_first P (\<lambda>b. b\<lparr>status := f b, updatedAt := t\<rparr>) bs)
   = map (\<lambda>b. (b_id b, clientId b)) bs"
  by (induction bs) auto

lemma owners_register: "owners (snd (register L cfg e req w)) = owners w"
  by (simp add: register_def owners_def logged_def Let_def split: option.splits)

lemma owners_login: "owners (snd (login L cfg e req w)) = owners w"
  by (simp add: login_def owners_def logged_def Let_def split: option.splits)

lemma owners_getBookingById: "owners (snd (getBookingById L cfg e req w)) = owners w"
  by (simp add: getBookingById_def owners_def logged_def Let_def split: option.splits)

lemma owners_getStats: "owners (snd (getStats L cfg e req w)) = owners w"
  by (simp add: getStats_def owners_def logged_def Let_def)

lemma owners_updateBookingStatus:
  "owners (snd (updateBookingStatus L cfg e req w)) = owners w"
  by (simp add: updateBookingStatus_def owners_def logged_def Let_def owners_update_first
      split: option.splits)

lemma owners_createBooking:
  "take (length (owners w)) (owners (snd (createBooking L cfg e req w))) = owners w"
  by (simp add: createBooking_def owners_def logged_def Let_def split: option.splits)

lemma owners_protected:
  assumes "\<And>r v. take (length (owners v)) (owners (snd (h r v))) = owners v"
  shows "take (length (owners w)) (owners (snd (protected L cfg e h req w))) = owners w"
proof (cases "fst (authenticateToken L cfg e req w)")
  case (Inl res)
  then have "protected L cfg e h req w = (res, w)"
    using gate_keeps_world [of L cfg e req w]
    by (cases "authenticateToken L cfg e req w") (simp add: protected_def)
  then show ?thesis by simp
next
  case (Inr req')
  then have "protected L cfg e h req w = h req' w"
    using gate_keeps_world [of L cfg e req w]
    by (cases "authenticateToken L cfg e req w") (simp add: protected_def)
  then show ?thesis using assms by simp
qed

lemma owners_handle:
  "take (length (owners w)) (owners (snd (handle L cfg e c w))) = owners w"
proof (cases c)
  case (CreateBooking req)
  then show ?thesis by (simp add: owners_protected owners_createBooking)
next
  case (GetBookingById req)
  then show ?thesis by (simp add: owners_protected owners_getBookingById)
next
  case (UpdateBookingStatus req)
  then show ?thesis by (simp add: owners_protected owners_updateBookingStatus)
next
  case (GetStats req)
  then show ?thesis by (simp add: owners_protected owners_getStats)
qed (simp_all add: owners_register owners_login)

lemma owners_serve:
  "take (length (owners w)) (owners (serve L cfg cs w)) = owners w"
proof (induction cs arbitrary: w)
  case Nil
  then show ?case by simp
next
  case (Cons ec cs)
  obtain e c where ec: "ec = (e, c)" by (cases ec)
  let ?w1 = "snd (handle L cfg e c w)"
  have step: "take (length (owners w)) (owners ?w1) = owners w"
    by (rule owners_handle)
  have rest: "take (length (owners ?w1)) (owners (serve L cfg cs ?w1)) = owners ?w1"
    by (rule Cons.IH)
  have le: "length (owners w) \<le> length (owners ?w1)"
    using arg_cong [OF step, of length] by simp
  have "take (length (owners w)) (owners (serve L cfg cs ?w1))
          = take (length (owners w)) (take (length (owners ?w1)) (owners (serve L cfg cs ?w1)))"
    using le by (simp add: min_def)
  also have "\<dots> = owners w"
    using rest step by simp
  finally show ?case
    by (simp add: ec)
qed

text \<open>
  Claim C7. When \<open>createBooking\<close> answers 201 for an authenticated caller, the booking it
  stored and returned has status \<open>pending\<close>, payment status \<open>pending\<close> and the caller's id
  as owner; a status, payment status or owner in the request body changes nothing; and
  over any sequence of requests every stored booking keeps its id and owner.
\<close>

theorem created_booking_defaults:
  "(req_user req = Some caller \<and> code (fst (createBooking L cfg e req w)) = 201 \<longrightarrow>
      (\<exists>b. json (fst (createBooking L cfg e req w))
               = BookingMessageReply ''Booking created successfully'' b
           \<and> bookings (snd (createBooking L cfg e req w)) = bookings w @ [b]
           \<and> status b = ''pending'' \<and> paymentStatus b = ''pending''
           \<and> clientId b = userId caller))
   \<and> createBooking L cfg e
        (req\<lparr>body := (body req)\<lparr>bb_status := s, bb_paymentStatus := p, bb_clientId := c\<rparr>\<rparr>) w
      = createBooking L cfg e req w
   \<and> take (length (owners w)) (owners (serve L cfg cs w)) = owners w"
proof -
  have created: "\<exists>b. json (fst (createBooking L cfg e req w))
               = BookingMessageReply ''Booking created successfully'' b
           \<and> bookings (snd (createBooking L cfg e req w)) = bookings w @ [b]
           \<and> status b = ''pending'' \<and> paymentStatus b = ''pending''
           \<and> clientId b = userId caller"
    if "req_user req = Some caller \<and> code (fst (createBooking L cfg e req w)) = 201"
    using that
    by (auto simp: createBooking_def Let_def logged_def catch_500_def split: if_splits)
  have ignored: "createBooking L cfg e
        (req\<lparr>body := (body req)\<lparr>bb_status := s, bb_paymentStatus := p, bb_clientId := c\<rparr>\<rparr>) w
      = createBooking L cfg e req w"
    by (simp add: createBooking_def)
  show ?thesis
    using created ignored owners_serve by blast
qed

text \<open>
  Witness for C7: the sample body asks for status \<open>delivered\<close>, payment status \<open>paid\<close>
  and another owner; the booking is created pending and owned by the caller.
\<close>

theorem created_booking_defaults_witness:
  "\<exists>b. bookings (snd (createBooking sample_libs sample_cfg sample_env
                (sample_request sample_booking_body\<lparr>req_user := Some sample_claims\<rparr>)
                sample_world)) = [sample_booking, b]
       \<and> status b = ''pending'' \<and> paymentStatus b = ''pending''
       \<and> clientId b = ''507f1f77bcf86cd799439011''"
proof -
  have created: "code (fst (createBooking sample_libs sample_cfg sample_env
                (sample_request sample_booking_body\<lparr>req_user := Some sample_claims\<rparr>)
                sample_world)) = 201"
    by (simp add: sample_defs createBooking_def Let_def logged_def booking_validate_def
        required_string_def required_value_def enum_check_def new_airwayBill_def
        sample_booking_body_def)
  have who: "req_user (sample_request sample_booking_body\<lparr>req_user := Some sample_claims\<rparr>)
               = Some sample_claims"
    by simp
  have uid: "userId sample_claims = ''507f1f77bcf86cd799439011''"
    by (simp add: sample_claims_def signed_claims_def)
  have bs: "bookings sample_world = [sample_booking]"
    by (simp add: sample_world_def)
  show ?thesis
    using created_booking_defaults [of
        "sample_request sample_booking_body\<lparr>req_user := Some sample_claims\<rparr>" sample_claims
        sample_libs sample_cfg sample_env sample_world None None None "[]"] created who uid bs
    by auto
qed

subsection \<open>Dashboard\<close>






subsection \<open>Error responses\<close>

text \<open>
  Claim C9, at the failing input. In production mode a registration that fails validation
  is answered by the controller's \<open>catch\<close> block with the error's message as \<open>error\<close>,
  while \<open>errorHandler\<close> would replace that message by \<open>Internal server error\<close>.
\<close>

theorem catch_exposes_message_in_production:
  "environment sample_cfg = ''production''
   \<and> fst (handle sample_libs sample_cfg sample_env
          (Register (sample_request \<lparr>rb_name = Some ''Bob'', rb_email = Some ''b@x.com'',
             rb_password = Some ''pw'', rb_role = Some ''manager'', rb_phone = None,
             rb_address = None\<rparr>)) sample_world)
      = \<lparr>code = 500,
         json = ErrorReply
           ''User validation failed: role: `manager` is not a valid enum value for path `role`.''\<rparr>
   \<and> errorHandler sample_cfg
        ''User validation failed: role: `manager` is not a valid enum value for path `role`.''
      = \<lparr>code = 500, json = ErrorMessageReply ''Something went wrong!'' ''Internal server error''\<rparr>"
  by (simp add: sample_defs register_def Let_def logged_def catch_500_def User_findOne_email_def
      user_validate_def required_string_def enum_check_def user_roles_def errorHandler_def)

end
